theory Spec2Isabelle
  imports Complex_Main "HOL-Library.Multiset" "HOL-Library.Product_Lexorder"
begin

unbundle bit_operations_syntax

section \<open>Data model\<close>

text \<open>
  The program is \<^verbatim>\<open>src/app.py\<close>. A floating-point number (a font size, a coordinate,
  a density, a score) is modelled by the rational number it denotes. The dictionaries built by \<^verbatim>\<open>extract_text_with_style\<close> have a fixed set of keys and are
  records; the field for key \<^verbatim>\<open>k\<close> is named \<open>e_k\<close>.
\<close>

record rect =
  x0 :: rat
  y0 :: rat
  x1 :: rat
  y1 :: rat

record element =
  e_page :: nat
  e_text :: string
  e_font_size :: rat
  e_bold :: bool
  e_italic :: bool
  e_caps :: bool
  e_words :: nat
  e_centered :: bool
  e_density :: rat
  e_bbox :: rect
  e_is_paragraph :: bool
  e_heading_like :: bool

text \<open>\<^verbatim>\<open>{**e, "score": score}\<close>: an element with one more key.\<close>

record candidate = element +
  score :: rat

record heading =
  h_level :: string
  h_text :: string
  h_page :: nat
  h_font_size :: rat
  h_position :: rect

section \<open>Floating-point arithmetic\<close>

text \<open>
  The sum, the difference and the quotient of two floating-point numbers are rounded,
  and the rounding of \<^verbatim>\<open>sum\<close> over a list depends on the version of the interpreter.
  The operations are therefore a parameter of the scorer, of the extraction and of the
  title detection: \<open>f_add\<close>, \<open>f_sub\<close> and \<open>f_div\<close> stand for \<^verbatim>\<open>+\<close>, \<^verbatim>\<open>-\<close> and \<^verbatim>\<open>/\<close> on
  floats and \<open>f_sum\<close> for \<^verbatim>\<open>sum\<close>, and nothing is assumed about how they round.
  Comparisons, \<^verbatim>\<open>max\<close>, \<^verbatim>\<open>min\<close> and \<^verbatim>\<open>abs\<close> are exact, and so is the addition of the
  bonuses, whose values are multiples of one half below 12.
\<close>

record float_ops =
  f_add :: "rat \<Rightarrow> rat \<Rightarrow> rat"
  f_sub :: "rat \<Rightarrow> rat \<Rightarrow> rat"
  f_div :: "rat \<Rightarrow> rat \<Rightarrow> rat"
  f_sum :: "rat list \<Rightarrow> rat"

text \<open>The operations without rounding: the machine's, wherever its result is exact.\<close>

definition exact_ops :: float_ops where
  "exact_ops = \<lparr>f_add = (\<lambda>a b. a + b), f_sub = (\<lambda>a b. a - b), f_div = (\<lambda>a b. a / b),
                 f_sum = sum_list\<rparr>"

text \<open>
  The values of the literals \<^verbatim>\<open>1e-6\<close>, \<^verbatim>\<open>0.2\<close> and \<^verbatim>\<open>0.6\<close>: the binary floating-point
  numbers of 53 bits nearest to them. The literal \<^verbatim>\<open>0.5\<close> is \<open>1 / 2\<close>.
\<close>

definition float_1e_6 :: rat where
  "float_1e_6 = 4722366482869645 / 2 ^ 72"

definition float_0_2 :: rat where
  "float_0_2 = 3602879701896397 / 2 ^ 54"

definition float_0_6 :: rat where
  "float_0_6 = 5404319552844595 / 2 ^ 53"

section \<open>Configuration\<close>

definition MIN_HEADING_WORDS :: nat where "MIN_HEADING_WORDS = 2"
definition MAX_HEADING_WORDS :: nat where "MAX_HEADING_WORDS = 15"
definition MIN_PARAGRAPH_WORDS :: nat where "MIN_PARAGRAPH_WORDS = 8"
definition MAX_HEADING_DENSITY :: rat where "MAX_HEADING_DENSITY = float_0_6"
definition HEADING_SCORE_THRESHOLD :: rat where "HEADING_SCORE_THRESHOLD = 5"

section \<open>Heading processing\<close>

text \<open>Line 131 to 134 of the source: the size-ratio bucket of one element.\<close>

definition size_points :: "float_ops \<Rightarrow> rat \<Rightarrow> rat \<Rightarrow> element \<Rightarrow> rat" where
  "size_points fp avg_size size_range e =
     (let size_ratio = f_div fp (f_sub fp (e_font_size e) avg_size) (f_add fp size_range float_1e_6)
      in if size_ratio > 1 / 2 then 3
         else if size_ratio > float_0_2 then 2
         else if size_ratio > 0 then 1 else 0)"

text \<open>Line 139: the amount added for the word count.\<close>

definition length_points :: "nat \<Rightarrow> rat" where
  "length_points w = (if w \<le> 10 then 1 else (if w \<le> 15 then 1 / 2 else 0))"

text \<open>Lines 131 to 141: the body of the loop, up to the final value of \<^verbatim>\<open>score\<close>.\<close>

definition heading_score :: "float_ops \<Rightarrow> rat \<Rightarrow> rat \<Rightarrow> element \<Rightarrow> rat" where
  "heading_score fp avg_size size_range e =
     (let score = size_points fp avg_size size_range e;
          score = score + (if e_bold e then 2 else 0);
          score = score + (if e_caps e \<and> e_words e \<le> 8 then 1 else 0);
          score = score + (if e_centered e then 1 else 0);
          score = score + length_points (e_words e);
          score = score + (if e_density e < MAX_HEADING_DENSITY then 1 else 0);
          score = score + (if e_heading_like e then 2 else 0)
      in score)"

definition with_score :: "element \<Rightarrow> rat \<Rightarrow> candidate" where
  "with_score e s = element.extend e (candidate.fields s)"

text \<open>The loop of lines 127 to 144 over the elements.\<close>

fun collect_candidates :: "float_ops \<Rightarrow> rat \<Rightarrow> rat \<Rightarrow> element list \<Rightarrow> candidate list" where
  "collect_candidates fp avg_size size_range [] = []"
| "collect_candidates fp avg_size size_range (e # es) =
     (if e_is_paragraph e then collect_candidates fp avg_size size_range es
      else let score = heading_score fp avg_size size_range e
           in if score \<ge> HEADING_SCORE_THRESHOLD
              then with_score e score # collect_candidates fp avg_size size_range es
              else collect_candidates fp avg_size size_range es)"

definition process_headings :: "float_ops \<Rightarrow> element list \<Rightarrow> candidate list" where
  "process_headings fp elements =
     (if elements = [] then []
      else let non_para_sizes = map e_font_size (filter (\<lambda>e. \<not> e_is_paragraph e) elements)
           in case non_para_sizes of
                [] \<Rightarrow> []
              | s # ss \<Rightarrow>
                  let avg_size = f_div fp (f_sum fp non_para_sizes) (of_nat (length non_para_sizes));
                      size_range = f_sub fp (fold max ss s) (fold min ss s)
                  in collect_candidates fp avg_size size_range elements)"

section \<open>Level assignment\<close>

text \<open>
  In this part the doubling and the halving of a font size are exact in binary floating
  point. The scores are those of the scorer, multiples of one half between 5 and 12, so
  their sum is exact; the quotient by the length of the cluster is rounded, which keeps
  the order and the equality of two means for clusters of fewer than \<open>2 ^ 23\<close> items.
  The arithmetic of this part is therefore written without rounding.
\<close>

text \<open>Python's \<^verbatim>\<open>round\<close> on a float: to the nearest integer, a tie to the even one.\<close>

definition py_round :: "rat \<Rightarrow> int" where
  "py_round x =
     (let f = \<lfloor>x\<rfloor>; d = x - of_int f
      in if d < 1 / 2 then f
         else if d > 1 / 2 then f + 1
         else if even f then f else f + 1)"

type_synonym style_key = "rat \<times> bool \<times> bool \<times> bool \<times> bool"

definition style_key_of :: "candidate \<Rightarrow> style_key" where
  "style_key_of c =
     (of_int (py_round (e_font_size c * 2)) / 2, e_bold c, e_italic c, e_caps c, e_centered c)"

text \<open>
  \<^verbatim>\<open>clusters[style_key].append(c)\<close> on a \<^verbatim>\<open>defaultdict(list)\<close>: the dictionary keeps its
  keys in the order of their first insertion, so it is an association list.
\<close>

fun cluster_append :: "'k \<Rightarrow> 'v \<Rightarrow> ('k \<times> 'v list) list \<Rightarrow> ('k \<times> 'v list) list" where
  "cluster_append k c [] = [(k, [c])]"
| "cluster_append k c ((k', items) # rest) =
     (if k' = k then (k', items @ [c]) # rest else (k', items) # cluster_append k c rest)"

definition build_clusters :: "candidate list \<Rightarrow> (style_key \<times> candidate list) list" where
  "build_clusters candidates = fold (\<lambda>c clusters. cluster_append (style_key_of c) c clusters) candidates []"

definition cluster_sort_key :: "style_key \<times> candidate list \<Rightarrow> rat \<times> rat" where
  "cluster_sort_key x = (- fst (fst x), - sum_list (map score (snd x)) / of_nat (length (snd x)))"

definition sorted_clusters :: "candidate list \<Rightarrow> (style_key \<times> candidate list) list" where
  "sorted_clusters candidates = sort_key cluster_sort_key (build_clusters candidates)"

text \<open>The decimal digits of a number, as an f-string prints it.\<close>

fun str_nat :: "nat \<Rightarrow> string" where
  "str_nat n =
     (if n < 10 then [char_of (48 + n)] else str_nat (n div 10) @ [char_of (48 + n mod 10)])"

definition level_name :: "nat \<Rightarrow> string" where
  "level_name level = ''H'' @ str_nat (min level 6)"

text \<open>
  Lines 167 to 175: every item of every cluster, in the order of the ranked clusters,
  with the level name of its cluster.
\<close>

definition leveled :: "candidate list \<Rightarrow> (string \<times> candidate) list" where
  "leveled candidates =
     concat (map (\<lambda>(level, (_, items)). map (\<lambda>item. (level_name level, item)) items)
                 (enumerate 1 (sorted_clusters candidates)))"

definition mk_heading :: "string \<times> candidate \<Rightarrow> heading" where
  "mk_heading p =
     \<lparr>h_level = fst p, h_text = e_text (snd p), h_page = e_page (snd p),
      h_font_size = e_font_size (snd p), h_position = e_bbox (snd p)\<rparr>"

definition heading_sort_key :: "heading \<Rightarrow> nat \<times> rat" where
  "heading_sort_key x = (h_page x, y0 (h_position x))"

definition assign_heading_levels :: "candidate list \<Rightarrow> heading list" where
  "assign_heading_levels candidates =
     (if candidates = [] then []
      else sort_key heading_sort_key (map mk_heading (leveled candidates)))"


section \<open>Strings\<close>

text \<open>
  A Python \<^verbatim>\<open>str\<close> is modelled as a \<open>string\<close>: a list of characters with code points
  below 256, and \<open>of_char c\<close> is \<^verbatim>\<open>ord(c)\<close>. The character tables are those of
  Python for that range.
\<close>

definition between :: "int \<Rightarrow> int \<Rightarrow> char \<Rightarrow> bool" where
  "between lo hi c = (lo \<le> of_char c \<and> of_char c \<le> hi)"

text \<open>\<^verbatim>\<open>str.isspace\<close> of one character; also the class \<^verbatim>\<open>\s\<close>.\<close>

definition isspace :: "char \<Rightarrow> bool" where
  "isspace c = (between 9 13 c \<or> between 28 32 c \<or> between 133 133 c \<or> between 160 160 c)"

text \<open>The class \<^verbatim>\<open>\d\<close>.\<close>

definition isdecimal :: "char \<Rightarrow> bool" where
  "isdecimal c = between 48 57 c"

text \<open>\<^verbatim>\<open>str.islower\<close> and \<^verbatim>\<open>str.isupper\<close> of one character.\<close>

definition islower :: "char \<Rightarrow> bool" where
  "islower c = (between 97 122 c \<or> between 170 170 c \<or> between 181 181 c \<or> between 186 186 c
                \<or> between 223 246 c \<or> between 248 255 c)"

definition isupper :: "char \<Rightarrow> bool" where
  "isupper c = (between 65 90 c \<or> between 192 214 c \<or> between 216 222 c)"

text \<open>The class \<^verbatim>\<open>\w\<close>: alphanumeric characters and the underscore.\<close>

definition isword :: "char \<Rightarrow> bool" where
  "isword c = (between 48 57 c \<or> between 65 90 c \<or> between 95 95 c \<or> between 97 122 c
               \<or> between 170 170 c \<or> between 178 179 c \<or> between 181 181 c
               \<or> between 185 186 c \<or> between 188 190 c \<or> between 192 214 c
               \<or> between 216 246 c \<or> between 248 255 c)"

text \<open>
  \<^verbatim>\<open>str.lower\<close> and \<^verbatim>\<open>str.upper\<close> of one character. The uppercase forms of the code
  points 181, 223 and 255 are not below 256; these three are left unchanged.
\<close>

definition lower :: "char \<Rightarrow> char" where
  "lower c = (if isupper c then char_of (of_char c + (32 :: int)) else c)"

definition upper :: "char \<Rightarrow> char" where
  "upper c = (if between 97 122 c \<or> between 224 246 c \<or> between 248 254 c
              then char_of (of_char c - (32 :: int)) else c)"

text \<open>\<^verbatim>\<open>text.strip()\<close>.\<close>

definition strip :: "string \<Rightarrow> string" where
  "strip s = rev (dropWhile isspace (rev (dropWhile isspace s)))"

text \<open>
  \<^verbatim>\<open>text.split()\<close>: the maximal runs of characters that are not whitespace, found by
  one scan; \<open>w\<close> is the run read so far.
\<close>

fun split_from :: "string \<Rightarrow> string \<Rightarrow> string list" where
  "split_from w [] = (if w = [] then [] else [w])"
| "split_from w (c # cs) =
     (if isspace c then (if w = [] then split_from [] cs else w # split_from [] cs)
      else split_from (w @ [c]) cs)"

definition split :: "string \<Rightarrow> string list" where
  "split s = split_from [] s"

text \<open>\<^verbatim>\<open>sep.join(xs)\<close>.\<close>

fun join :: "string \<Rightarrow> string list \<Rightarrow> string" where
  "join sep [] = []"
| "join sep [x] = x"
| "join sep (x # y # ys) = x @ sep @ join sep (y # ys)"

text \<open>
  \<^verbatim>\<open>text.isupper()\<close> of a string: no character is lowercase and one is uppercase (below
  256 every titlecase character is an uppercase one).
\<close>

definition str_isupper :: "string \<Rightarrow> bool" where
  "str_isupper s = (list_all (\<lambda>c. \<not> islower c) s \<and> list_ex isupper s)"

definition endswith :: "string \<Rightarrow> string \<Rightarrow> bool" where
  "endswith s suffix = (length suffix \<le> length s \<and> drop (length s - length suffix) s = suffix)"

section \<open>Regular expressions\<close>

text \<open>
  The patterns of the program use character sets, \<^verbatim>\<open>.\<close>, \<^verbatim>\<open>^\<close>, \<^verbatim>\<open>$\<close>, \<^verbatim>\<open>\b\<close>, sequence,
  alternation and repetition. An item of a set is a character, a range, or one of the
  classes \<^verbatim>\<open>\d\<close>, \<^verbatim>\<open>\s\<close>, \<^verbatim>\<open>\w\<close>.
\<close>

datatype cset = Lit char | Rng char char | Digit | Space | Wordc

datatype regex =
    Any
  | In "cset list"
  | NotIn "cset list"
  | Bol
  | Eol
  | WordB
  | Eps
  | Seq regex regex
  | Alt regex regex
  | Star regex

primrec item_has :: "cset \<Rightarrow> char \<Rightarrow> bool" where
  "item_has (Lit a) c = (c = a)"
| "item_has (Rng a b) c = between (of_char a) (of_char b) c"
| "item_has Digit c = isdecimal c"
| "item_has Space c = isspace c"
| "item_has Wordc c = isword c"

text \<open>
  Membership in a set; with \<^verbatim>\<open>re.IGNORECASE\<close> (\<open>ic\<close>) a character is in the set when it
  or one of its two case forms is.
\<close>

definition in_cset :: "bool \<Rightarrow> cset list \<Rightarrow> char \<Rightarrow> bool" where
  "in_cset ic items c =
     list_ex (\<lambda>item. item_has item c \<or> (ic \<and> (item_has item (lower c) \<or> item_has item (upper c))))
       items"

definition word_at :: "string \<Rightarrow> nat \<Rightarrow> bool" where
  "word_at s i = (i < length s \<and> isword (s ! i))"

text \<open>\<^verbatim>\<open>\b\<close>: exactly one of the characters before and after the position is a word character.\<close>

definition boundary :: "string \<Rightarrow> nat \<Rightarrow> bool" where
  "boundary s i = ((0 < i \<and> word_at s (i - 1)) \<noteq> word_at s i)"

text \<open>\<^verbatim>\<open>$\<close>: the end of the string, or the position of a line feed that ends it.\<close>

definition at_end :: "string \<Rightarrow> nat \<Rightarrow> bool" where
  "at_end s i = (i = length s \<or> (Suc i = length s \<and> s ! i = CHR 0x0A))"

text \<open>
  The positions a repetition can end at: the start, or an end of a further repetition
  after one non-empty match. No position lies behind the end of the string, so
  \<open>length s - i\<close> rounds reach them all.
\<close>

fun iterate :: "(nat \<Rightarrow> nat set) \<Rightarrow> nat \<Rightarrow> nat \<Rightarrow> nat set" where
  "iterate f 0 i = {i}"
| "iterate f (Suc n) i = insert i (\<Union>j \<in> f i - {i}. iterate f n j)"

text \<open>
  \<open>ends r ic s i\<close>: the positions where a match of \<open>r\<close> in \<open>s\<close> that starts at \<open>i\<close> can
  end. A pattern matches at \<open>i\<close> (the matcher of \<^verbatim>\<open>re\<close> finds a match by backtracking)
  iff this set is not empty.
\<close>

primrec ends :: "regex \<Rightarrow> bool \<Rightarrow> string \<Rightarrow> nat \<Rightarrow> nat set" where
  "ends Any ic s i = (if i < length s \<and> s ! i \<noteq> CHR 0x0A then {Suc i} else {})"
| "ends (In items) ic s i = (if i < length s \<and> in_cset ic items (s ! i) then {Suc i} else {})"
| "ends (NotIn items) ic s i = (if i < length s \<and> \<not> in_cset ic items (s ! i) then {Suc i} else {})"
| "ends Bol ic s i = (if i = 0 then {i} else {})"
| "ends Eol ic s i = (if at_end s i then {i} else {})"
| "ends WordB ic s i = (if boundary s i then {i} else {})"
| "ends Eps ic s i = {i}"
| "ends (Seq a b) ic s i = (\<Union>j \<in> ends a ic s i. ends b ic s j)"
| "ends (Alt a b) ic s i = ends a ic s i \<union> ends b ic s i"
| "ends (Star a) ic s i = iterate (ends a ic s) (length s - i) i"

text \<open>\<^verbatim>\<open>re.match\<close> tries the start of the string, \<^verbatim>\<open>re.search\<close> every position.\<close>

definition re_match :: "regex \<Rightarrow> bool \<Rightarrow> string \<Rightarrow> bool" where
  "re_match r ic s = (ends r ic s 0 \<noteq> {})"

definition re_search :: "regex \<Rightarrow> bool \<Rightarrow> string \<Rightarrow> bool" where
  "re_search r ic s = list_ex (\<lambda>i. ends r ic s i \<noteq> {}) [0..<Suc (length s)]"

text \<open>Notation of the patterns: a sequence, a literal text, alternatives, repetitions.\<close>

definition seq :: "regex list \<Rightarrow> regex" where
  "seq rs = foldr Seq rs Eps"

definition lit :: "string \<Rightarrow> regex" where
  "lit w = seq (map (\<lambda>c. In [Lit c]) w)"

definition alts :: "regex list \<Rightarrow> regex" where
  "alts rs = foldr Alt (butlast rs) (last rs)"

definition opt :: "regex \<Rightarrow> regex" where
  "opt r = Alt r Eps"

definition many1 :: "regex \<Rightarrow> regex" where
  "many1 r = Seq r (Star r)"

text \<open>\<^verbatim>\<open>r{m,n}\<close> is \<open>rep m (Some n) r\<close> and \<^verbatim>\<open>r{m,}\<close> is \<open>rep m None r\<close>.\<close>

definition rep :: "nat \<Rightarrow> nat option \<Rightarrow> regex \<Rightarrow> regex" where
  "rep m n r =
     Seq (seq (replicate m r))
         (case n of None \<Rightarrow> Star r | Some k \<Rightarrow> seq (replicate (k - m) (opt r)))"

abbreviation "digit \<equiv> In [Digit]"
abbreviation "a_z \<equiv> In [Rng CHR ''a'' CHR ''z'']"
abbreviation "A_Z \<equiv> In [Rng CHR ''A'' CHR ''Z'']"

section \<open>Blocklist\<close>

definition BLOCKLIST_REGEX :: "regex list" where
  "BLOCKLIST_REGEX =
     [seq [Bol, many1 digit, Eol],
      seq [Bol, many1 (In (map Lit ''ivxlcdm'')), Eol],
      seq [Bol, a_z, Eol],
      seq [Bol, lit ''Table of Contents'', Eol],
      seq [Bol, lit ''Appendix'', Eol],
      seq [Bol, lit ''Index'', Eol],
      seq [Bol, lit ''References'', Eol],
      seq [Bol, lit ''Bibliography'', Eol],
      seq [Bol, Star (In [Space]), Eol],
      seq [Bol, many1 (NotIn [Rng CHR ''a'' CHR ''z'', Rng CHR ''A'' CHR ''Z'', Rng CHR ''0'' CHR ''9'']), Eol],
      seq [Bol, alts [lit ''Chapter'', lit ''Section'', lit ''Fig'', lit ''Figure'', lit ''Table''],
           WordB],
      seq [WordB, rep 1 (Some 2) digit, opt (alts [lit ''st'', lit ''nd'', lit ''rd'', lit ''th'']),
           many1 (In [Space]),
           alts [lit ''Jan'', lit ''Feb'', lit ''Mar'', lit ''Apr'', lit ''May'', lit ''Jun'',
                 lit ''Jul'', lit ''Aug'', lit ''Sep'', lit ''Oct'', lit ''Nov'', lit ''Dec''],
           Star a_z, WordB],
      seq [WordB, alts [lit ''Mon'', lit ''Tue'', lit ''Wed'', lit ''Thu'', lit ''Fri'', lit ''Sat'',
                        lit ''Sun''],
           Star (In [Wordc]), WordB],
      seq [Bol, rep 1 (Some 2) digit, lit ''/'', rep 1 (Some 2) digit, lit ''/'',
           rep 2 (Some 4) digit, Eol],
      seq [Bol, rep 4 (Some 4) digit, lit ''-'', rep 2 (Some 2) digit, lit ''-'',
           rep 2 (Some 2) digit, Eol]]"

text \<open>The patterns are compiled with \<^verbatim>\<open>re.IGNORECASE\<close>.\<close>

definition is_blocked :: "string \<Rightarrow> bool" where
  "is_blocked text0 =
     (let text1 = strip text0
      in text1 = [] \<or> list_ex (\<lambda>p. re_match p True text1) BLOCKLIST_REGEX)"

definition calculate_text_density :: "float_ops \<Rightarrow> string \<Rightarrow> rect \<Rightarrow> rat" where
  "calculate_text_density fp text0 bbox =
     (let text_width = f_sub fp (x1 bbox) (x0 bbox)
      in if text_width > 0 then f_div fp (of_nat (length text0)) text_width else 0)"

section \<open>Text classification\<close>

definition paragraph_indicators :: "regex list" where
  "paragraph_indicators =
     [seq [Bol, A_Z, a_z, Star Any, In [Lit CHR ''.'', Lit CHR ''!'', Lit CHR ''?''], Eol],
      seq [Star Any, WordB, rep 3 None a_z, WordB, Star Any],
      seq [Star Any, lit '','', In [Space], a_z, Star Any],
      seq [Star Any, WordB, alts [lit ''and'', lit ''the'', lit ''of'', lit ''in'', lit ''to''], WordB],
      rep 50 None Any]"

definition is_paragraph :: "string \<Rightarrow> bool" where
  "is_paragraph text0 =
     (let text1 = strip text0
      in if text1 = [] \<or> length (split text1) < MIN_PARAGRAPH_WORDS then False
         else length (filter (\<lambda>p. re_search p False text1) paragraph_indicators) \<ge> 3)"

definition heading_indicators :: "(regex \<times> int) list" where
  "heading_indicators =
     [(seq [Bol, seq [A_Z, Star a_z], Star (seq [many1 (In [Space]), A_Z, Star a_z]), Eol], 2),
      (seq [Bol, A_Z, a_z, Star (NotIn [Lit CHR ''.'', Lit CHR ''!'', Lit CHR ''?'']), Eol], 1),
      (seq [Bol, A_Z, Star (NotIn [Lit CHR ''?'', Lit CHR ''.'']), lit ''?'', Eol], 2),
      (seq [Bol, many1 digit, lit ''.'', many1 (In [Space]), A_Z], 2),
      (seq [Bol, A_Z, Star (In [Wordc]),
            opt (seq [lit '':'', many1 (In [Space]), A_Z, a_z,
                      Star (NotIn [Lit CHR ''.'', Lit CHR ''!'', Lit CHR ''?''])]),
            Eol], 1)]"

definition is_heading_like :: "string \<Rightarrow> bool" where
  "is_heading_like text0 =
     (let text1 = strip text0
      in if text1 = [] \<or> length (split text1) > MAX_HEADING_WORDS then False
         else
           let score = sum_list (map snd (filter (\<lambda>(p, points). re_match p False text1)
                                                 heading_indicators));
               score = (if re_search (seq [In [Lit CHR ''.'', Lit CHR ''!''], Eol]) False text1
                           \<and> \<not> endswith text1 ''?''
                        then score - 2 else score);
               score = (if text1 \<noteq> [] \<and> islower (text1 ! 0) \<and> length (split text1) > 3
                        then score - 1 else score)
           in score \<ge> 2)"

section \<open>Text extraction\<close>

text \<open>
  What \<^verbatim>\<open>fitz\<close> hands over: a document is the list of its pages; a page has a width and
  the blocks of \<^verbatim>\<open>page.get_text("dict")\<close>; a block may have the key \<^verbatim>\<open>"lines"\<close>; a line
  has spans and a bounding box; a span has a text, a size and flags.
\<close>

record span =
  s_text :: string
  s_size :: rat
  s_flags :: int

record line =
  l_spans :: "span list"
  l_bbox :: rect

record block =
  b_lines :: "line list option"

record page =
  p_width :: rat
  p_blocks :: "block list"

type_synonym document = "page list"

text \<open>\<^verbatim>\<open>max\<close> of an empty sequence raises \<^verbatim>\<open>ValueError\<close>, \<^verbatim>\<open>spans[0]\<close> of one \<^verbatim>\<open>IndexError\<close>.\<close>

datatype error = ValueError | IndexError

definition py_max :: "rat list \<Rightarrow> error + rat" where
  "py_max xs = (case xs of [] \<Rightarrow> Inl ValueError | x # rest \<Rightarrow> Inr (fold max rest x))"

definition first_item :: "'a list \<Rightarrow> error + 'a" where
  "first_item xs = (case xs of [] \<Rightarrow> Inl IndexError | x # rest \<Rightarrow> Inr x)"

text \<open>Lines 77 to 98: the body of the innermost loop; \<open>elements\<close> is the list built so far.\<close>

definition extract_line ::
  "float_ops \<Rightarrow> nat \<Rightarrow> rat \<Rightarrow> line \<Rightarrow> element list \<Rightarrow> error + element list" where
  "extract_line fp page_num page_width lin elements =
     (let line_text = strip (concat (map s_text (l_spans lin)))
      in if is_blocked line_text then Inr elements
         else case py_max (map s_size (l_spans lin)) of
                Inl err \<Rightarrow> Inl err
              | Inr font_size \<Rightarrow>
                  (case first_item (l_spans lin) of
                     Inl err \<Rightarrow> Inl err
                   | Inr span0 \<Rightarrow>
                       let flags = s_flags span0;
                           bbox = l_bbox lin
                       in Inr (elements @
                            [\<lparr>e_page = page_num + 1,
                              e_text = line_text,
                              e_font_size = font_size,
                              e_bold = (flags AND 2 \<noteq> 0),
                              e_italic = (flags AND 4 \<noteq> 0),
                              e_caps = str_isupper line_text,
                              e_words = length (split line_text),
                              e_centered = (\<bar>f_sub fp (x0 bbox) (f_sub fp page_width (x1 bbox))\<bar> < 20),
                              e_density = calculate_text_density fp line_text bbox,
                              e_bbox = bbox,
                              e_is_paragraph = is_paragraph line_text,
                              e_heading_like = is_heading_like line_text\<rparr>])))"

fun extract_lines ::
  "float_ops \<Rightarrow> nat \<Rightarrow> rat \<Rightarrow> line list \<Rightarrow> element list \<Rightarrow> error + element list" where
  "extract_lines fp page_num page_width [] elements = Inr elements"
| "extract_lines fp page_num page_width (lin # lins) elements =
     (case extract_line fp page_num page_width lin elements of
        Inl err \<Rightarrow> Inl err
      | Inr elements' \<Rightarrow> extract_lines fp page_num page_width lins elements')"

fun extract_blocks ::
  "float_ops \<Rightarrow> nat \<Rightarrow> rat \<Rightarrow> block list \<Rightarrow> element list \<Rightarrow> error + element list" where
  "extract_blocks fp page_num page_width [] elements = Inr elements"
| "extract_blocks fp page_num page_width (blk # blks) elements =
     (case b_lines blk of
        None \<Rightarrow> extract_blocks fp page_num page_width blks elements
      | Some lins \<Rightarrow>
          (case extract_lines fp page_num page_width lins elements of
             Inl err \<Rightarrow> Inl err
           | Inr elements' \<Rightarrow> extract_blocks fp page_num page_width blks elements'))"

fun extract_pages ::
  "float_ops \<Rightarrow> (nat \<times> page) list \<Rightarrow> element list \<Rightarrow> error + element list" where
  "extract_pages fp [] elements = Inr elements"
| "extract_pages fp ((page_num, pg) # pgs) elements =
     (case extract_blocks fp page_num (p_width pg) (p_blocks pg) elements of
        Inl err \<Rightarrow> Inl err
      | Inr elements' \<Rightarrow> extract_pages fp pgs elements')"

definition extract_text_with_style :: "float_ops \<Rightarrow> document \<Rightarrow> error + element list" where
  "extract_text_with_style fp doc = extract_pages fp (enumerate 0 doc) []"

section \<open>Title detection\<close>

definition find_title :: "float_ops \<Rightarrow> element list \<Rightarrow> string" where
  "find_title fp elements =
     (let first_page_elements = filter (\<lambda>e. e_page e = 1 \<and> \<not> is_blocked (e_text e)) elements
      in case first_page_elements of
           [] \<Rightarrow> []
         | e # es \<Rightarrow>
             let max_font = fold max (map e_font_size es) (e_font_size e);
                 title_candidates = filter (\<lambda>e. \<bar>f_sub fp (e_font_size e) max_font\<bar> < 1 / 2) first_page_elements;
                 title_candidates = sort_key (\<lambda>x. y0 (e_bbox x)) title_candidates;
                 title_text = strip (join '' '' (map e_text (take 3 title_candidates)))
             in title_text)"

section \<open>Main function\<close>

text \<open>
  Lines 182 to 191, from the extracted elements on: \<open>structure_of\<close>. The key \<^verbatim>\<open>"title"\<close>
  is the field \<open>title\<close>, the key \<^verbatim>\<open>"outline"\<close> the field \<open>outline\<close>.
\<close>

record outline_entry =
  o_level :: string
  o_text :: string
  o_page :: nat

record document_structure =
  title :: string
  outline :: "outline_entry list"

definition structure_of :: "float_ops \<Rightarrow> element list \<Rightarrow> document_structure" where
  "structure_of fp elements =
     (let title = find_title fp elements;
          candidates = process_headings fp elements;
          headings = assign_heading_levels candidates
      in \<lparr>title = title,
          outline = map (\<lambda>h. \<lparr>o_level = h_level h, o_text = h_text h, o_page = h_page h\<rparr>) headings\<rparr>)"

definition extract_document_structure :: "float_ops \<Rightarrow> document \<Rightarrow> error + document_structure" where
  "extract_document_structure fp doc =
     (case extract_text_with_style fp doc of
        Inl err \<Rightarrow> Inl err
      | Inr elements \<Rightarrow> Inr (structure_of fp elements))"

section \<open>The lines of a document\<close>

text \<open>
  For the statements about the extraction: the lines of a document in the order of the
  three loops of \<^verbatim>\<open>extract_text_with_style\<close>, each with the index and the width of its
  page; the text of a line; the lines that are not blocked; and the element that lines
  85 to 98 build from a line that has a span.
\<close>

definition doc_lines :: "document \<Rightarrow> (nat \<times> rat \<times> line) list" where
  "doc_lines doc =
     concat (map (\<lambda>(page_num, pg).
                    concat (map (\<lambda>blk. case b_lines blk of
                                          None \<Rightarrow> []
                                        | Some lins \<Rightarrow> map (\<lambda>lin. (page_num, p_width pg, lin)) lins)
                                (p_blocks pg)))
                 (enumerate 0 doc))"

definition line_text :: "line \<Rightarrow> string" where
  "line_text lin = strip (concat (map s_text (l_spans lin)))"

definition surviving :: "document \<Rightarrow> (nat \<times> rat \<times> line) list" where
  "surviving doc = filter (\<lambda>(page_num, page_width, lin). \<not> is_blocked (line_text lin)) (doc_lines doc)"

definition element_of :: "float_ops \<Rightarrow> nat \<times> rat \<times> line \<Rightarrow> element" where
  "element_of fp x =
     (case x of (page_num, page_width, lin) \<Rightarrow>
        \<lparr>e_page = page_num + 1,
         e_text = line_text lin,
         e_font_size = Max (set (map s_size (l_spans lin))),
         e_bold = (s_flags (hd (l_spans lin)) AND 2 \<noteq> 0),
         e_italic = (s_flags (hd (l_spans lin)) AND 4 \<noteq> 0),
         e_caps = str_isupper (line_text lin),
         e_words = length (split (line_text lin)),
         e_centered = (\<bar>f_sub fp (x0 (l_bbox lin)) (f_sub fp page_width (x1 (l_bbox lin)))\<bar> < 20),
         e_density = calculate_text_density fp (line_text lin) (l_bbox lin),
         e_bbox = l_bbox lin,
         e_is_paragraph = is_paragraph (line_text lin),
         e_heading_like = is_heading_like (line_text lin)\<rparr>)"

text \<open>A document whose lines are all blocked: a page number, a line without spans, a date.\<close>

definition blocked_doc :: document where
  "blocked_doc =
     [\<lparr>p_width = 600,
       p_blocks =
         [\<lparr>b_lines = None\<rparr>,
          \<lparr>b_lines = Some
             [\<lparr>l_spans = [\<lparr>s_text = '' 12 '', s_size = 10, s_flags = 0\<rparr>],
               l_bbox = \<lparr>x0 = 290, y0 = 800, x1 = 310, y1 = 812\<rparr>\<rparr>,
              \<lparr>l_spans = [], l_bbox = \<lparr>x0 = 0, y0 = 0, x1 = 0, y1 = 0\<rparr>\<rparr>,
              \<lparr>l_spans = [\<lparr>s_text = ''3 '', s_size = 10, s_flags = 0\<rparr>,
                          \<lparr>s_text = ''May 2024'', s_size = 10, s_flags = 2\<rparr>],
               l_bbox = \<lparr>x0 = 50, y0 = 20, x1 = 120, y1 = 32\<rparr>\<rparr>]\<rparr>]\<rparr>]"

section \<open>The scorer as the specification words it\<close>

text \<open>
  A second description of the scorer, following the specification: the mean and the
  range of the font sizes of the lines that are not paragraphs, the bucket of the size
  ratio, and the sum of the bonuses. The mean, the range and the ratio are computed in
  floating point, with the operations \<open>fp\<close>; \<^verbatim>\<open>1e-6\<close>, \<^verbatim>\<open>0.2\<close> and \<^verbatim>\<open>0.6\<close> are the floats
  of these literals.
\<close>

definition spec_non_paragraph :: "element list \<Rightarrow> element list" where
  "spec_non_paragraph es = filter (\<lambda>e. \<not> e_is_paragraph e) es"

definition spec_avg_size :: "float_ops \<Rightarrow> element list \<Rightarrow> rat" where
  "spec_avg_size fp es =
     f_div fp (f_sum fp (map e_font_size (spec_non_paragraph es)))
              (of_nat (length (spec_non_paragraph es)))"

definition spec_size_range :: "float_ops \<Rightarrow> element list \<Rightarrow> rat" where
  "spec_size_range fp es =
     f_sub fp (Max (set (map e_font_size (spec_non_paragraph es))))
              (Min (set (map e_font_size (spec_non_paragraph es))))"

definition spec_size_bucket :: "float_ops \<Rightarrow> element list \<Rightarrow> element \<Rightarrow> rat" where
  "spec_size_bucket fp es e =
     (let r = f_div fp (f_sub fp (e_font_size e) (spec_avg_size fp es))
                       (f_add fp (spec_size_range fp es) float_1e_6)
      in if r > 1 / 2 then 3 else if r > float_0_2 then 2 else if r > 0 then 1 else 0)"

definition spec_total_score :: "float_ops \<Rightarrow> element list \<Rightarrow> element \<Rightarrow> rat" where
  "spec_total_score fp es e =
     spec_size_bucket fp es e
     + (if e_bold e then 2 else 0)
     + (if e_caps e \<and> e_words e \<le> 8 then 1 else 0)
     + (if e_centered e then 1 else 0)
     + (if e_words e \<le> 10 then 1 else if e_words e \<le> 15 then 1 / 2 else 0)
     + (if e_density e < float_0_6 then 1 else 0)
     + (if e_heading_like e then 2 else 0)"

section \<open>Sample inputs\<close>

definition line_four :: element where
  "line_four = \<lparr>e_page = 1, e_text = ''Results of the study'', e_font_size = 12, e_bold = True,
     e_italic = False, e_caps = False, e_words = 4, e_centered = False, e_density = 1 / 2,
     e_bbox = \<lparr>x0 = 50, y0 = 100, x1 = 90, y1 = 112\<rparr>, e_is_paragraph = False,
     e_heading_like = False\<rparr>"

definition line_five :: element where
  "line_five = line_four\<lparr>e_centered := True\<rparr>"


section \<open>The title as the specification words it\<close>

text \<open>
  The lines of page 1 that survive the blocklist; and the title of the specification:
  among these lines, those whose font size is within 0.5 of the largest one, sorted by
  the top of the bounding box (a stable sort), the first three, their texts joined with
  single spaces. The difference of two sizes is the floating-point one, and "within"
  is the strict comparison of the source.
\<close>

definition spec_first_page :: "element list \<Rightarrow> element list" where
  "spec_first_page es = filter (\<lambda>e. e_page e = 1 \<and> \<not> is_blocked (e_text e)) es"

definition spec_max_size :: "element list \<Rightarrow> rat" where
  "spec_max_size es = Max (set (map e_font_size (spec_first_page es)))"

definition spec_title :: "float_ops \<Rightarrow> element list \<Rightarrow> string" where
  "spec_title fp es =
     join '' ''
       (map e_text
          (take 3
             (sort_key (\<lambda>e. y0 (e_bbox e))
                (filter (\<lambda>e. \<bar>f_sub fp (e_font_size e) (spec_max_size es)\<bar> < 1 / 2)
                   (spec_first_page es)))))"

text \<open>A text is trimmed when \<^verbatim>\<open>strip\<close> leaves it as it is.\<close>

definition trimmed :: "string \<Rightarrow> bool" where
  "trimmed s = (strip s = s)"

text \<open>
  A first page with lines of sizes 24, 24, 12, 24 from top to bottom, and a line of
  size 30 on the second page.
\<close>

definition title_line :: "string \<Rightarrow> rat \<Rightarrow> nat \<Rightarrow> rat \<Rightarrow> element" where
  "title_line t sz pg y =
     line_four\<lparr>e_text := t, e_font_size := sz, e_page := pg,
                e_bbox := \<lparr>x0 = 50, y0 = y, x1 = 300, y1 = y + sz\<rparr>\<rparr>"

definition title_lines :: "element list" where
  "title_lines =
     [title_line ''A Study of'' 24 1 100, title_line ''Layout Analysis'' 24 1 130,
      title_line ''second edition'' 12 1 160, title_line ''Methods'' 24 1 180,
      title_line ''Contents of the Book'' 30 2 50]"
section \<open>The level assigner as the specification words it\<close>

text \<open>
  A list of clusters groups the items \<open>cs\<close> by the key \<open>f\<close>: the keys are distinct, and the
  cluster of a key holds exactly the items with that key, in their order in \<open>cs\<close>.
\<close>

definition grouped_by :: "('v \<Rightarrow> 'k) \<Rightarrow> 'v list \<Rightarrow> ('k \<times> 'v list) list \<Rightarrow> bool" where
  "grouped_by f cs cl \<longleftrightarrow>
     distinct (map fst cl) \<and>
     (\<forall>k. map_of cl k =
        (if k \<in> f ` set cs then Some (filter (\<lambda>c. f c = k) cs) else None))"

text \<open>The mean candidate score within a group.\<close>

definition spec_mean_score :: "candidate list \<Rightarrow> rat" where
  "spec_mean_score items = sum_list (map score items) / of_nat (length items)"


text \<open>Candidates that differ in font size, weight, page, vertical position and score.\<close>

definition sample_cand :: "rat \<Rightarrow> bool \<Rightarrow> nat \<Rightarrow> rat \<Rightarrow> rat \<Rightarrow> candidate" where
  "sample_cand sz b page y s =
     with_score (line_four\<lparr>e_font_size := sz, e_bold := b, e_page := page,
                   e_bbox := \<lparr>x0 = 50, y0 = y, x1 = 90, y1 = y + 12\<rparr>\<rparr>) s"

definition seven_styles :: "candidate list" where
  "seven_styles =
     [sample_cand 10 True 1 100 5, sample_cand 24 True 1 50 6, sample_cand 12 True 2 10 5,
      sample_cand 14 True 2 30 5, sample_cand 16 True 3 10 5, sample_cand 18 True 3 40 5,
      sample_cand 20 True 4 10 5]"

definition two_scores :: "candidate list" where
  "two_scores =
     [sample_cand 12 True 1 100 5, sample_cand 18 True 1 50 6, sample_cand 12 True 2 10 7,
      sample_cand (49 / 4) False 2 20 8]"

text \<open>
  Five candidates of size 12 and score 5 on one line of one page: the first is bold
  only, and each of the others differs from it in exactly one of the flags italic, caps,
  centered and bold.
\<close>

definition flag_styles :: "candidate list" where
  "flag_styles =
     [sample_cand 12 True 1 100 5,
      (sample_cand 12 True 1 100 5)\<lparr>e_italic := True\<rparr>,
      (sample_cand 12 True 1 100 5)\<lparr>e_caps := True\<rparr>,
      (sample_cand 12 True 1 100 5)\<lparr>e_centered := True\<rparr>,
      sample_cand 12 False 1 100 5]"

section \<open>The heading-candidate scorer\<close>

lemma collect_candidates_filter:
  "collect_candidates fp a r es =
     map (\<lambda>e. with_score e (heading_score fp a r e))
       (filter (\<lambda>e. \<not> e_is_paragraph e \<and> heading_score fp a r e \<ge> HEADING_SCORE_THRESHOLD) es)"
  by (induction es) (simp_all add: Let_def)

lemma heading_score_spec:
  "heading_score fp (spec_avg_size fp es) (spec_size_range fp es) e = spec_total_score fp es e"
  by (simp add: heading_score_def spec_total_score_def size_points_def spec_size_bucket_def
      length_points_def MAX_HEADING_DENSITY_def Let_def)

lemma truncate_with_score: "element.truncate (with_score e s) = e"
  by (simp add: with_score_def element.truncate_def element.extend_def)

lemma score_with_score: "score (with_score e s) = s"
  by (simp add: with_score_def element.extend_def candidate.fields_def)

lemma process_headings_spec:
  assumes "\<exists>e\<in>set es. \<not> e_is_paragraph e"
  shows "process_headings fp es =
           map (\<lambda>e. with_score e (spec_total_score fp es e))
               (filter (\<lambda>e. \<not> e_is_paragraph e \<and> spec_total_score fp es e \<ge> 5) es)"
proof -
  from assms obtain s ss
    where nps: "map e_font_size (filter (\<lambda>e. \<not> e_is_paragraph e) es) = s # ss"
    by (cases "map e_font_size (filter (\<lambda>e. \<not> e_is_paragraph e) es)")
       (auto simp: filter_empty_conv)
  from assms have ne: "es \<noteq> []" by auto
  have avg: "f_div fp (f_sum fp (s # ss)) (of_nat (length (s # ss))) = spec_avg_size fp es"
    unfolding spec_avg_size_def spec_non_paragraph_def nps[symmetric] by simp
  have rng: "f_sub fp (fold max ss s) (fold min ss s) = spec_size_range fp es"
    unfolding spec_size_range_def spec_non_paragraph_def nps
    by (simp only: Max.set_eq_fold Min.set_eq_fold)
  have "process_headings fp es = collect_candidates fp (spec_avg_size fp es) (spec_size_range fp es) es"
    using ne avg rng by (simp add: process_headings_def nps Let_def del: sum_list.Cons)
  then show ?thesis
    by (simp add: collect_candidates_filter heading_score_spec HEADING_SCORE_THRESHOLD_def)
qed

text \<open>
  Claim C1. When at least one line is not flagged as a paragraph, \<open>process_headings\<close>
  returns, in the order of the input, exactly the lines that are not paragraphs and
  whose total score is at least 5, each with that score; the score is the size-ratio
  bucket plus the bonuses, as \<open>spec_total_score\<close> words it. A line whose total is
  exactly 4 is not returned, and a line whose total is exactly 5 is. The mean, the
  range and the ratio are the floating-point ones, and the statement holds however the
  floating-point operations \<open>fp\<close> round. In the sample below both lines have size 12:
  the sum 24, the mean 12, the range 0 and the ratio 0 are exact in floating point.
\<close>

theorem scorer_keeps_exactly_threshold:
  assumes "\<exists>e\<in>set es. \<not> e_is_paragraph e"
  shows "process_headings fp es =
           map (\<lambda>e. with_score e (spec_total_score fp es e))
               (filter (\<lambda>e. \<not> e_is_paragraph e \<and> spec_total_score fp es e \<ge> 5) es)
         \<and> (\<forall>e\<in>set es. \<not> e_is_paragraph e \<and> spec_total_score fp es e = 4
               \<longrightarrow> e \<notin> element.truncate ` set (process_headings fp es))
         \<and> (\<forall>e\<in>set es. \<not> e_is_paragraph e \<and> spec_total_score fp es e = 5
               \<longrightarrow> e \<in> element.truncate ` set (process_headings fp es))"
proof -
  note eq = process_headings_spec[OF assms]
  have tr: "element.truncate ` set (process_headings fp es)
            = {e \<in> set es. \<not> e_is_paragraph e \<and> spec_total_score fp es e \<ge> 5}"
    unfolding eq by (auto simp: truncate_with_score image_iff)
  show ?thesis using eq tr by auto
qed

lemma score_line_four: "spec_total_score exact_ops [line_four, line_five] line_four = 4"
  by (simp add: spec_total_score_def spec_size_bucket_def spec_avg_size_def spec_size_range_def
      spec_non_paragraph_def line_four_def line_five_def exact_ops_def float_1e_6_def
      float_0_2_def float_0_6_def)

lemma score_line_five: "spec_total_score exact_ops [line_four, line_five] line_five = 5"
  by (simp add: spec_total_score_def spec_size_bucket_def spec_avg_size_def spec_size_range_def
      spec_non_paragraph_def line_four_def line_five_def exact_ops_def float_1e_6_def
      float_0_2_def float_0_6_def)

theorem scorer_keeps_exactly_threshold_witness:
  "(\<exists>e\<in>set [line_four, line_five]. \<not> e_is_paragraph e)
   \<and> spec_total_score exact_ops [line_four, line_five] line_four = 4
   \<and> spec_total_score exact_ops [line_four, line_five] line_five = 5
   \<and> process_headings exact_ops [line_four, line_five] = [with_score line_five 5]"
proof -
  have h: "\<exists>e\<in>set [line_four, line_five]. \<not> e_is_paragraph e"
    by (simp add: line_four_def)
  have p4: "\<not> e_is_paragraph line_four" and p5: "\<not> e_is_paragraph line_five"
    by (simp_all add: line_four_def line_five_def)
  from scorer_keeps_exactly_threshold[OF h, of exact_ops] show ?thesis
    using h score_line_four score_line_five p4 p5 by simp
qed

text \<open>
  Claim C8. With every other feature fixed, and whatever the floating-point operations
  \<open>fp\<close>, the mean and the range are, the score of a line with the bold flag set is at
  least its score with the flag clear; and the length points of a word count above 15 are at most the length points of any word count up to 15 (more generally,
  the length points never grow with the word count).
\<close>

theorem bold_and_length_monotone:
  "heading_score fp avg_size size_range (e\<lparr>e_bold := False\<rparr>)
     \<le> heading_score fp avg_size size_range (e\<lparr>e_bold := True\<rparr>)
   \<and> (15 < w \<longrightarrow> w' \<le> 15 \<longrightarrow> length_points w \<le> length_points w')
   \<and> (w \<le> w' \<longrightarrow> length_points w' \<le> length_points w)"
  by (simp add: heading_score_def size_points_def length_points_def Let_def)

theorem bold_and_length_monotone_witness:
  "heading_score exact_ops 12 0 (line_four\<lparr>e_bold := False\<rparr>) = 2
   \<and> heading_score exact_ops 12 0 (line_four\<lparr>e_bold := True\<rparr>) = 4
   \<and> (15::nat) < 16 \<and> (12::nat) \<le> 15 \<and> length_points 16 = 0 \<and> length_points 12 = 1 / 2
   \<and> length_points 16 \<le> length_points 12"
  using bold_and_length_monotone[of exact_ops 12 0 line_four 16 12]
  by (simp add: heading_score_def size_points_def length_points_def Let_def line_four_def
      MAX_HEADING_DENSITY_def exact_ops_def float_1e_6_def float_0_2_def float_0_6_def)

section \<open>The style clusterer and level assigner\<close>

lemma map_of_cluster_append:
  "map_of (cluster_append k c cl) =
     (map_of cl)(k \<mapsto> (case map_of cl k of None \<Rightarrow> [c] | Some items \<Rightarrow> items @ [c]))"
  by (induction cl) (auto simp: fun_eq_iff)

lemma keys_cluster_append:
  "map fst (cluster_append k c cl) =
     (if k \<in> fst ` set cl then map fst cl else map fst cl @ [k])"
  by (induction cl) (auto split: if_splits)

lemma distinct_cluster_append:
  "distinct (map fst cl) \<Longrightarrow> distinct (map fst (cluster_append k c cl))"
  by (simp add: keys_cluster_append)

lemma grouped_by_step:
  assumes "grouped_by f pre cl"
  shows "grouped_by f (pre @ [c]) (cluster_append (f c) c cl)"
proof -
  from assms have d: "distinct (map fst cl)"
    and m: "\<And>k. map_of cl k =
        (if k \<in> f ` set pre then Some (filter (\<lambda>c. f c = k) pre) else None)"
    by (auto simp: grouped_by_def)
  have e: "filter (\<lambda>x. f x = f c) pre = []" if "f c \<notin> f ` set pre"
  proof -
    have "f x \<noteq> f c" if "x \<in> set pre" for x
      using that \<open>f c \<notin> f ` set pre\<close> by (metis imageI)
    then show ?thesis by (simp add: filter_empty_conv)
  qed
  show ?thesis
    unfolding grouped_by_def
  proof (intro conjI allI)
    show "distinct (map fst (cluster_append (f c) c cl))"
      by (rule distinct_cluster_append[OF d])
    fix k
    show "map_of (cluster_append (f c) c cl) k =
         (if k \<in> f ` set (pre @ [c]) then Some (filter (\<lambda>c. f c = k) (pre @ [c])) else None)"
    proof (cases "k = f c")
      case True
      then show ?thesis
        using e by (cases "f c \<in> f ` set pre") (simp_all add: map_of_cluster_append m)
    next
      case False
      then have "f c \<noteq> k" by auto
      with False show ?thesis
        by (simp add: map_of_cluster_append m)
    qed
  qed
qed

lemma grouped_by_fold:
  "grouped_by f pre cl \<Longrightarrow>
   grouped_by f (pre @ cs) (fold (\<lambda>c clusters. cluster_append (f c) c clusters) cs cl)"
proof (induction cs arbitrary: pre cl)
  case Nil
  then show ?case by simp
next
  case (Cons c cs)
  from Cons.IH[OF grouped_by_step[OF Cons.prems, of c]] show ?case by simp
qed

lemma grouped_by_mset:
  assumes "grouped_by f cs cl" and "mset cl' = mset cl"
  shows "grouped_by f cs cl'"
proof -
  from assms(1) have d0: "distinct (map fst cl)" by (simp add: grouped_by_def)
  have "mset (map fst cl') = mset (map fst cl)"
    using assms(2) by simp
  then have d: "distinct (map fst cl')"
    using d0 by (metis mset_eq_imp_distinct_iff)
  have s: "set cl' = set cl"
    using assms(2) by (rule mset_eq_setD)
  have "map_of cl' = map_of cl"
    by (rule map_of_inject_set[THEN iffD2, OF d d0 s])
  with d assms(1) show ?thesis
    by (simp add: grouped_by_def)
qed

lemma grouped_by_mem:
  assumes "grouped_by f cs cl"
  shows "(k, items) \<in> set cl \<longleftrightarrow> k \<in> f ` set cs \<and> items = filter (\<lambda>c. f c = k) cs"
proof -
  from assms have d: "distinct (map fst cl)" by (simp add: grouped_by_def)
  have "(k, items) \<in> set cl \<longleftrightarrow> map_of cl k = Some items"
    using d by simp
  also have "\<dots> \<longleftrightarrow> k \<in> f ` set cs \<and> items = filter (\<lambda>c. f c = k) cs"
    using assms by (auto simp: grouped_by_def)
  finally show ?thesis .
qed

lemma clusters_of_sorted: "grouped_by style_key_of cs (sorted_clusters cs)"
proof -
  have "grouped_by style_key_of ([] @ cs) (build_clusters cs)"
    unfolding build_clusters_def by (rule grouped_by_fold) (simp add: grouped_by_def)
  then have "grouped_by style_key_of cs (build_clusters cs)" by simp
  then show ?thesis
    by (rule grouped_by_mset) (simp add: sorted_clusters_def)
qed

lemma cluster_mem:
  "(k, items) \<in> set (sorted_clusters cs) \<longleftrightarrow>
     k \<in> style_key_of ` set cs \<and> items = filter (\<lambda>c. style_key_of c = k) cs"
  by (rule grouped_by_mem[OF clusters_of_sorted])

lemma cluster_nth:
  assumes "i < length (sorted_clusters cs)"
  shows "fst (sorted_clusters cs ! i) \<in> style_key_of ` set cs"
    and "snd (sorted_clusters cs ! i) =
           filter (\<lambda>c. style_key_of c = fst (sorted_clusters cs ! i)) cs"
    and "snd (sorted_clusters cs ! i) \<noteq> []"
proof -
  have "(fst (sorted_clusters cs ! i), snd (sorted_clusters cs ! i)) \<in> set (sorted_clusters cs)"
    using assms by simp
  then have a: "fst (sorted_clusters cs ! i) \<in> style_key_of ` set cs"
    and b: "snd (sorted_clusters cs ! i) =
           filter (\<lambda>c. style_key_of c = fst (sorted_clusters cs ! i)) cs"
    unfolding cluster_mem by auto
  show "fst (sorted_clusters cs ! i) \<in> style_key_of ` set cs" by (rule a)
  show "snd (sorted_clusters cs ! i) =
           filter (\<lambda>c. style_key_of c = fst (sorted_clusters cs ! i)) cs" by (rule b)
  from a show "snd (sorted_clusters cs ! i) \<noteq> []"
    by (subst b) (auto simp: filter_empty_conv)
qed

lemma cluster_index_unique:
  assumes "i < length (sorted_clusters cs)" "j < length (sorted_clusters cs)"
    and "fst (sorted_clusters cs ! i) = fst (sorted_clusters cs ! j)"
  shows "i = j"
proof -
  have "distinct (map fst (sorted_clusters cs))"
    using clusters_of_sorted[of cs] by (simp add: grouped_by_def)
  then show ?thesis using assms by (metis distinct_conv_nth length_map nth_map)
qed

lemma leveled_mem:
  "(l, item) \<in> set (leveled cs) \<longleftrightarrow>
     (\<exists>k < length (sorted_clusters cs).
        item \<in> set (snd (sorted_clusters cs ! k)) \<and> l = level_name (Suc k))"
proof -
  let ?sc = "sorted_clusters cs"
  have "(l, item) \<in> set (leveled cs) \<longleftrightarrow>
        (\<exists>p \<in> set (enumerate 1 ?sc). item \<in> set (snd (snd p)) \<and> l = level_name (fst p))"
    unfolding leveled_def by (force simp: case_prod_beta)
  also have "\<dots> \<longleftrightarrow> (\<exists>k < length ?sc. item \<in> set (snd (?sc ! k)) \<and> l = level_name (Suc k))"
  proof
    assume "\<exists>p \<in> set (enumerate 1 ?sc). item \<in> set (snd (snd p)) \<and> l = level_name (fst p)"
    then obtain p where p: "p \<in> set (enumerate 1 ?sc)" "item \<in> set (snd (snd p))"
      "l = level_name (fst p)" by blast
    from p(1) have "1 \<le> fst p" "fst p < length ?sc + 1" "snd p = ?sc ! (fst p - 1)"
      by (auto simp: in_set_enumerate_eq)
    with p(2,3) show "\<exists>k < length ?sc. item \<in> set (snd (?sc ! k)) \<and> l = level_name (Suc k)"
      by (intro exI[of _ "fst p - 1"]) auto
  next
    assume "\<exists>k < length ?sc. item \<in> set (snd (?sc ! k)) \<and> l = level_name (Suc k)"
    then obtain k where k: "k < length ?sc" "item \<in> set (snd (?sc ! k))" "l = level_name (Suc k)"
      by blast
    then have "(Suc k, ?sc ! k) \<in> set (enumerate 1 ?sc)"
      by (auto simp: in_set_enumerate_eq)
    with k show "\<exists>p \<in> set (enumerate 1 ?sc). item \<in> set (snd (snd p)) \<and> l = level_name (fst p)"
      by force
  qed
  finally show ?thesis .
qed

lemma py_round_near: "\<bar>of_int (py_round x) - x\<bar> \<le> 1 / 2"
  unfolding py_round_def Let_def by (auto simp: abs_if) linarith+

lemma style_size_near:
  "\<bar>fst (style_key_of c) - e_font_size c\<bar> \<le> 1 / 4"
proof -
  have "\<bar>of_int (py_round (e_font_size c * 2)) - e_font_size c * 2\<bar> \<le> 1 / 2"
    by (rule py_round_near)
  then show ?thesis by (simp add: style_key_of_def abs_if split: if_splits) 
qed

lemma level_name_values:
  "level_name 1 = ''H1''" "level_name 2 = ''H2''" "level_name 3 = ''H3''"
  "level_name 4 = ''H4''" "level_name 5 = ''H5''" "level_name 6 = ''H6''"
  by code_simp+

lemma level_name_clamp: "6 \<le> n \<Longrightarrow> level_name n = ''H6''"
  using level_name_values(6) by (simp add: level_name_def min_def)

lemma level_name_cases:
  "level_name (Suc k) \<in> {''H1'', ''H2'', ''H3'', ''H4'', ''H5'', ''H6''}"
proof -
  consider "Suc k = 1" | "Suc k = 2" | "Suc k = 3" | "Suc k = 4" | "Suc k = 5" | "6 \<le> Suc k"
    by linarith
  then show ?thesis
    by cases (simp_all only: level_name_values level_name_clamp insert_iff simp_thms)
qed

lemma sorted_clusters_ranked:
  assumes "i < j" "j < length (sorted_clusters cs)"
  shows "fst (fst (sorted_clusters cs ! i)) > fst (fst (sorted_clusters cs ! j))
         \<or> (fst (fst (sorted_clusters cs ! i)) = fst (fst (sorted_clusters cs ! j))
              \<and> spec_mean_score (snd (sorted_clusters cs ! i))
                  \<ge> spec_mean_score (snd (sorted_clusters cs ! j)))"
proof -
  let ?sc = "sorted_clusters cs"
  have "sorted (map cluster_sort_key ?sc)"
    unfolding sorted_clusters_def by (rule sorted_sort_key)
  then have "map cluster_sort_key ?sc ! i \<le> map cluster_sort_key ?sc ! j"
    using assms by (intro sorted_nth_mono) auto
  then have "cluster_sort_key (?sc ! i) \<le> cluster_sort_key (?sc ! j)"
    using assms by simp
  then show ?thesis
    by (auto simp: cluster_sort_key_def less_eq_prod_def spec_mean_score_def)
qed

lemma assign_mset:
  "mset (assign_heading_levels cs) = mset (map mk_heading (leveled cs))"
proof (cases "cs = []")
  case True
  then show ?thesis
    by (simp add: assign_heading_levels_def leveled_def sorted_clusters_def build_clusters_def
        enumerate_eq_zip)
next
  case False
  then show ?thesis by (simp add: assign_heading_levels_def)
qed

lemma assign_set: "set (assign_heading_levels cs) = mk_heading ` set (leveled cs)"
  using assign_mset[of cs] by (metis mset_eq_setD set_map)

lemma leveled_items: "snd ` set (leveled cs) = set cs"
proof (intro set_eqI iffI)
  fix c assume "c \<in> snd ` set (leveled cs)"
  then obtain l where "(l, c) \<in> set (leveled cs)" by auto
  then obtain k where k: "k < length (sorted_clusters cs)"
    "c \<in> set (snd (sorted_clusters cs ! k))"
    unfolding leveled_mem by blast
  from k(2) show "c \<in> set cs"
    by (subst (asm) cluster_nth(2)[OF k(1)]) simp
next
  fix c assume c: "c \<in> set cs"
  then have "(style_key_of c, filter (\<lambda>x. style_key_of x = style_key_of c) cs)
               \<in> set (sorted_clusters cs)"
    unfolding cluster_mem by simp
  then obtain k where k: "k < length (sorted_clusters cs)"
    "sorted_clusters cs ! k = (style_key_of c, filter (\<lambda>x. style_key_of x = style_key_of c) cs)"
    by (auto simp: in_set_conv_nth)
  with c have "(level_name (Suc k), c) \<in> set (leveled cs)"
    unfolding leveled_mem by (intro exI[of _ k]) simp
  then show "c \<in> snd ` set (leveled cs)" by force
qed

lemma leveled_key:
  assumes "(l, c) \<in> set (leveled cs)"
  shows "\<exists>k < length (sorted_clusters cs).
           fst (sorted_clusters cs ! k) = style_key_of c \<and> l = level_name (Suc k)"
proof -
  from assms obtain k where k: "k < length (sorted_clusters cs)"
    "c \<in> set (snd (sorted_clusters cs ! k))" "l = level_name (Suc k)"
    unfolding leveled_mem by blast
  from k(2) have "style_key_of c = fst (sorted_clusters cs ! k)"
    by (subst (asm) cluster_nth(2)[OF k(1)]) simp
  with k show ?thesis by auto
qed

lemma same_key_same_level:
  assumes "(l1, c1) \<in> set (leveled cs)" "(l2, c2) \<in> set (leveled cs)"
    and "style_key_of c1 = style_key_of c2"
  shows "l1 = l2"
proof -
  from leveled_key[OF assms(1)] obtain i where i: "i < length (sorted_clusters cs)"
    "fst (sorted_clusters cs ! i) = style_key_of c1" "l1 = level_name (Suc i)" by blast
  from leveled_key[OF assms(2)] obtain j where j: "j < length (sorted_clusters cs)"
    "fst (sorted_clusters cs ! j) = style_key_of c2" "l2 = level_name (Suc j)" by blast
  have "i = j"
    by (rule cluster_index_unique[OF i(1) j(1)]) (simp add: i(2) j(2) assms(3))
  with i(3) j(3) show ?thesis by simp
qed

lemma assign_sorted: "sorted (map heading_sort_key (assign_heading_levels cs))"
  by (simp add: assign_heading_levels_def sorted_sort_key)

lemma assign_reading_order:
  assumes "i < j" "j < length (assign_heading_levels cs)"
  shows "h_page (assign_heading_levels cs ! i) \<le> h_page (assign_heading_levels cs ! j)"
    and "h_page (assign_heading_levels cs ! i) = h_page (assign_heading_levels cs ! j)
          \<Longrightarrow> y0 (h_position (assign_heading_levels cs ! i))
                \<le> y0 (h_position (assign_heading_levels cs ! j))"
proof -
  let ?hs = "assign_heading_levels cs"
  have "map heading_sort_key ?hs ! i \<le> map heading_sort_key ?hs ! j"
    using assms by (intro sorted_nth_mono[OF assign_sorted]) auto
  then have le: "heading_sort_key (?hs ! i) \<le> heading_sort_key (?hs ! j)"
    using assms by simp
  from le show "h_page (?hs ! i) \<le> h_page (?hs ! j)"
    by (auto simp: heading_sort_key_def less_eq_prod_def)
  from le show "y0 (h_position (?hs ! i)) \<le> y0 (h_position (?hs ! j))"
    if "h_page (?hs ! i) = h_page (?hs ! j)"
    using that by (auto simp: heading_sort_key_def less_eq_prod_def)
qed

lemma first_cluster_H1:
  assumes "cs \<noteq> []"
  shows "\<exists>c \<in> set cs. (''H1'', c) \<in> set (leveled cs)"
proof -
  from assms obtain c0 where "c0 \<in> set cs" by (cases cs) auto
  then have "(style_key_of c0, filter (\<lambda>x. style_key_of x = style_key_of c0) cs)
               \<in> set (sorted_clusters cs)"
    unfolding cluster_mem by simp
  then have len: "0 < length (sorted_clusters cs)" by (cases "sorted_clusters cs") auto
  from cluster_nth(3)[OF len] obtain c where c: "c \<in> set (snd (sorted_clusters cs ! 0))"
    by (cases "snd (sorted_clusters cs ! 0)") auto
  then have "c \<in> set cs"
    by (subst (asm) cluster_nth(2)[OF len]) simp
  moreover have "(level_name (Suc 0), c) \<in> set (leveled cs)"
    unfolding leveled_mem using len c by blast
  moreover have "level_name (Suc 0) = ''H1''"
    using level_name_values(1) by simp
  ultimately show ?thesis by auto
qed

text \<open>
  Claim C3. The level assigner groups the candidates by style signature. The signature
  of a candidate is the tuple of five components (r, bold, italic, caps, centered) of
  its own four flags and of its font size rounded: r is a multiple of 0.5 at distance
  at most 0.25 from the font size. The keys of the clusters are distinct and each
  cluster holds exactly the candidates with its key, so two candidates are in the same
  cluster iff they agree on all five components. The clusters are ranked by descending rounded font size, a tie by
  descending mean score. Every item of the cluster of rank k (counted from 1) gets the
  level "H" followed by min(k, 6), the emitted headings are the headings of these
  items, and so every emitted level is one of H1 to H6.
\<close>

theorem levels_by_ranked_style_group:
  "distinct (map fst (sorted_clusters cs))
   \<and> (\<forall>k items. (k, items) \<in> set (sorted_clusters cs)
         \<longleftrightarrow> k \<in> style_key_of ` set cs \<and> items = filter (\<lambda>c. style_key_of c = k) cs)
   \<and> (\<forall>c. \<exists>r. style_key_of c = (r, e_bold c, e_italic c, e_caps c, e_centered c)
          \<and> \<bar>r - e_font_size c\<bar> \<le> 1 / 4 \<and> (\<exists>n::int. r = of_int n / 2))
   \<and> (\<forall>i j. i < j \<and> j < length (sorted_clusters cs) \<longrightarrow>
          fst (fst (sorted_clusters cs ! i)) > fst (fst (sorted_clusters cs ! j))
          \<or> (fst (fst (sorted_clusters cs ! i)) = fst (fst (sorted_clusters cs ! j))
               \<and> spec_mean_score (snd (sorted_clusters cs ! i))
                   \<ge> spec_mean_score (snd (sorted_clusters cs ! j))))
   \<and> (\<forall>l item. (l, item) \<in> set (leveled cs) \<longleftrightarrow>
          (\<exists>k < length (sorted_clusters cs).
             item \<in> set (snd (sorted_clusters cs ! k)) \<and> l = ''H'' @ str_nat (min (Suc k) 6)))
   \<and> mset (assign_heading_levels cs) = mset (map mk_heading (leveled cs))
   \<and> (\<forall>h \<in> set (assign_heading_levels cs).
          h_level h \<in> {''H1'', ''H2'', ''H3'', ''H4'', ''H5'', ''H6''})"
proof (intro conjI)
  show "distinct (map fst (sorted_clusters cs))"
    using clusters_of_sorted[of cs] by (simp add: grouped_by_def)
  show "\<forall>k items. (k, items) \<in> set (sorted_clusters cs)
         \<longleftrightarrow> k \<in> style_key_of ` set cs \<and> items = filter (\<lambda>c. style_key_of c = k) cs"
    using cluster_mem by blast
  show "\<forall>c. \<exists>r. style_key_of c = (r, e_bold c, e_italic c, e_caps c, e_centered c)
          \<and> \<bar>r - e_font_size c\<bar> \<le> 1 / 4 \<and> (\<exists>n::int. r = of_int n / 2)"
  proof
    fix c :: candidate
    have "style_key_of c = (fst (style_key_of c), e_bold c, e_italic c, e_caps c, e_centered c)"
      by (simp add: style_key_of_def)
    moreover have "\<bar>fst (style_key_of c) - e_font_size c\<bar> \<le> 1 / 4"
      using style_size_near by (simp add: style_key_of_def)
    moreover have "\<exists>n::int. fst (style_key_of c) = of_int n / 2"
      by (auto simp: style_key_of_def)
    ultimately show "\<exists>r. style_key_of c = (r, e_bold c, e_italic c, e_caps c, e_centered c)
          \<and> \<bar>r - e_font_size c\<bar> \<le> 1 / 4 \<and> (\<exists>n::int. r = of_int n / 2)"
      by blast
  qed
  show "\<forall>i j. i < j \<and> j < length (sorted_clusters cs) \<longrightarrow>
          fst (fst (sorted_clusters cs ! i)) > fst (fst (sorted_clusters cs ! j))
          \<or> (fst (fst (sorted_clusters cs ! i)) = fst (fst (sorted_clusters cs ! j))
               \<and> spec_mean_score (snd (sorted_clusters cs ! i))
                   \<ge> spec_mean_score (snd (sorted_clusters cs ! j)))"
    using sorted_clusters_ranked by blast
  show "\<forall>l item. (l, item) \<in> set (leveled cs) \<longleftrightarrow>
          (\<exists>k < length (sorted_clusters cs).
             item \<in> set (snd (sorted_clusters cs ! k)) \<and> l = ''H'' @ str_nat (min (Suc k) 6))"
    using leveled_mem[of _ _ cs] unfolding level_name_def by blast
  show "mset (assign_heading_levels cs) = mset (map mk_heading (leveled cs))"
    by (rule assign_mset)
  show "\<forall>h \<in> set (assign_heading_levels cs).
          h_level h \<in> {''H1'', ''H2'', ''H3'', ''H4'', ''H5'', ''H6''}"
  proof
    fix h assume "h \<in> set (assign_heading_levels cs)"
    then obtain l c where lc: "(l, c) \<in> set (leveled cs)" "h = mk_heading (l, c)"
      unfolding assign_set by auto
    from lc(1) obtain k where "l = level_name (Suc k)"
      unfolding leveled_mem by blast
    with level_name_cases[of k] lc(2)
    show "h_level h \<in> {''H1'', ''H2'', ''H3'', ''H4'', ''H5'', ''H6''}"
      by (simp add: mk_heading_def)
  qed
qed

lemma seven_styles_levels:
  "map h_level (assign_heading_levels seven_styles)
     = [''H1'', ''H6'', ''H6'', ''H5'', ''H4'', ''H3'', ''H2'']"
  by code_simp

lemma seven_styles_sizes:
  "map h_font_size (assign_heading_levels seven_styles) = [24, 10, 12, 14, 16, 18, 20]"
  by code_simp

lemma seven_styles_clusters:
  "map fst (sorted_clusters seven_styles)
     = map (\<lambda>s. (s, True, False, False, False)) [24, 20, 18, 16, 14, 12, 10]"
  by code_simp

lemma two_scores_clusters:
  "map (\<lambda>p. (fst (fst p), fst (snd (fst p)), spec_mean_score (snd p))) (sorted_clusters two_scores)
     = [(18, True, 6), (12, False, 8), (12, True, 6)]"
  by code_simp

lemma flag_styles_clusters:
  "map fst (sorted_clusters flag_styles)
     = [(12, True, False, False, False), (12, True, True, False, False),
        (12, True, False, True, False), (12, True, False, False, True),
        (12, False, False, False, False)]"
  by code_simp

lemma flag_styles_levels:
  "map h_level (assign_heading_levels flag_styles) = [''H1'', ''H2'', ''H3'', ''H4'', ''H5'']"
  by code_simp

theorem levels_by_ranked_style_group_witness:
  "length (sorted_clusters seven_styles) = 7
   \<and> map fst (sorted_clusters flag_styles)
        = [(12, True, False, False, False), (12, True, True, False, False),
           (12, True, False, True, False), (12, True, False, False, True),
           (12, False, False, False, False)]
   \<and> map h_level (assign_heading_levels flag_styles) = [''H1'', ''H2'', ''H3'', ''H4'', ''H5'']
   \<and> map h_level (assign_heading_levels seven_styles)
        = [''H1'', ''H6'', ''H6'', ''H5'', ''H4'', ''H3'', ''H2'']
   \<and> map h_font_size (assign_heading_levels seven_styles) = [24, 10, 12, 14, 16, 18, 20]
   \<and> map (\<lambda>p. (fst (fst p), fst (snd (fst p)), spec_mean_score (snd p)))
          (sorted_clusters two_scores) = [(18, True, 6), (12, False, 8), (12, True, 6)]"
proof -
  have len: "length (sorted_clusters seven_styles) = 7"
    using arg_cong[OF seven_styles_clusters, of length] by simp
  from levels_by_ranked_style_group[of seven_styles]
  have "\<forall>h \<in> set (assign_heading_levels seven_styles).
          h_level h \<in> {''H1'', ''H2'', ''H3'', ''H4'', ''H5'', ''H6''}"
    by blast
  with len seven_styles_levels seven_styles_sizes two_scores_clusters
    flag_styles_clusters flag_styles_levels show ?thesis
    by blast
qed

text \<open>
  Claim C4. The headings returned by \<open>assign_heading_levels\<close> are in reading order:
  sorted by the pair (page, top of the bounding box), so the pages never decrease and,
  between two entries of the same page, the vertical positions never decrease.
\<close>

theorem outline_in_reading_order:
  "sorted (map heading_sort_key (assign_heading_levels cs))
   \<and> (\<forall>i j. i < j \<and> j < length (assign_heading_levels cs) \<longrightarrow>
          h_page (assign_heading_levels cs ! i) \<le> h_page (assign_heading_levels cs ! j)
          \<and> (h_page (assign_heading_levels cs ! i) = h_page (assign_heading_levels cs ! j)
               \<longrightarrow> y0 (h_position (assign_heading_levels cs ! i))
                     \<le> y0 (h_position (assign_heading_levels cs ! j))))"
  using assign_sorted assign_reading_order by blast

lemma seven_styles_order:
  "map heading_sort_key (assign_heading_levels seven_styles)
     = [(1, 50), (1, 100), (2, 10), (2, 30), (3, 10), (3, 40), (4, 10)]"
  by code_simp

theorem outline_in_reading_order_witness:
  "map heading_sort_key (assign_heading_levels seven_styles)
     = [(1, 50), (1, 100), (2, 10), (2, 30), (3, 10), (3, 40), (4, 10)]
   \<and> (0::nat) < 1 \<and> 1 < length (assign_heading_levels seven_styles)
   \<and> h_page (assign_heading_levels seven_styles ! 0) = h_page (assign_heading_levels seven_styles ! 1)
   \<and> y0 (h_position (assign_heading_levels seven_styles ! 0))
        \<le> y0 (h_position (assign_heading_levels seven_styles ! 1))"
proof -
  have len: "length (assign_heading_levels seven_styles) = 7"
    using arg_cong[OF seven_styles_order, of length] by simp
  have n0: "heading_sort_key (assign_heading_levels seven_styles ! 0) = (1, 50)"
    using arg_cong[OF seven_styles_order, of "\<lambda>xs. xs ! 0"] len by simp
  have n1: "heading_sort_key (assign_heading_levels seven_styles ! 1) = (1, 100)"
    using arg_cong[OF seven_styles_order, of "\<lambda>xs. xs ! 1"] len by simp
  have pg: "h_page (assign_heading_levels seven_styles ! 0)
              = h_page (assign_heading_levels seven_styles ! 1)"
    using n0 n1 by (simp add: heading_sort_key_def)
  have "(0::nat) < 1 \<and> 1 < length (assign_heading_levels seven_styles)"
    using len by simp
  with outline_in_reading_order[of seven_styles] pg
  have "y0 (h_position (assign_heading_levels seven_styles ! 0))
        \<le> y0 (h_position (assign_heading_levels seven_styles ! 1))"
    by blast
  with seven_styles_order len pg show ?thesis by simp
qed

text \<open>
  Claim C7. Every candidate is given a level, and two candidates of the same run with
  the same font size, bold, italic, caps and centered values are given the same level,
  whatever their scores.
\<close>

theorem same_style_same_level:
  "snd ` set (leveled cs) = set cs
   \<and> (\<forall>l1 c1 l2 c2.
         (l1, c1) \<in> set (leveled cs) \<and> (l2, c2) \<in> set (leveled cs)
         \<and> e_font_size c1 = e_font_size c2 \<and> e_bold c1 = e_bold c2
         \<and> e_italic c1 = e_italic c2 \<and> e_caps c1 = e_caps c2
         \<and> e_centered c1 = e_centered c2
         \<longrightarrow> l1 = l2)"
proof (intro conjI allI impI)
  show "snd ` set (leveled cs) = set cs" by (rule leveled_items)
next
  fix l1 c1 l2 c2
  assume a: "(l1, c1) \<in> set (leveled cs) \<and> (l2, c2) \<in> set (leveled cs)
         \<and> e_font_size c1 = e_font_size c2 \<and> e_bold c1 = e_bold c2
         \<and> e_italic c1 = e_italic c2 \<and> e_caps c1 = e_caps c2
         \<and> e_centered c1 = e_centered c2"
  then have "style_key_of c1 = style_key_of c2" by (simp add: style_key_of_def)
  with a show "l1 = l2" using same_key_same_level by blast
qed

lemma two_scores_leveled:
  "map (\<lambda>p. (fst p, e_font_size (snd p), e_bold (snd p), score (snd p))) (leveled two_scores)
     = [(''H1'', 18, True, 6), (''H2'', 49 / 4, False, 8), (''H3'', 12, True, 5),
        (''H3'', 12, True, 7)]"
  by code_simp

lemma two_scores_members:
  "(''H3'', sample_cand 12 True 1 100 5) \<in> set (leveled two_scores)"
  "(''H3'', sample_cand 12 True 2 10 7) \<in> set (leveled two_scores)"
  by code_simp+

theorem same_style_same_level_witness:
  "(''H3'', sample_cand 12 True 1 100 5) \<in> set (leveled two_scores)
   \<and> (''H3'', sample_cand 12 True 2 10 7) \<in> set (leveled two_scores)
   \<and> score (sample_cand 12 True 1 100 5) \<noteq> score (sample_cand 12 True 2 10 7)"
proof -
  have sc: "score (sample_cand 12 True 1 100 5) \<noteq> score (sample_cand 12 True 2 10 7)"
    by (simp add: sample_cand_def score_with_score)
  have st: "e_font_size (sample_cand 12 True 1 100 5) = e_font_size (sample_cand 12 True 2 10 7)
      \<and> e_bold (sample_cand 12 True 1 100 5) = e_bold (sample_cand 12 True 2 10 7)
      \<and> e_italic (sample_cand 12 True 1 100 5) = e_italic (sample_cand 12 True 2 10 7)
      \<and> e_caps (sample_cand 12 True 1 100 5) = e_caps (sample_cand 12 True 2 10 7)
      \<and> e_centered (sample_cand 12 True 1 100 5) = e_centered (sample_cand 12 True 2 10 7)"
    by (simp add: sample_cand_def with_score_def element.extend_def line_four_def)
  have "\<forall>l. (l, sample_cand 12 True 2 10 7) \<in> set (leveled two_scores) \<longrightarrow> l = ''H3''"
    using same_style_same_level[of two_scores] two_scores_members(1) st by blast
  with two_scores_members sc show ?thesis by blast
qed


lemma mset_cluster_append:
  "mset (concat (map snd (cluster_append k c cl))) = add_mset c (mset (concat (map snd cl)))"
  by (induction cl) auto

lemma mset_fold_cluster_append:
  "mset (concat (map snd (fold (\<lambda>c clusters. cluster_append (f c) c clusters) cs cl)))
     = mset cs + mset (concat (map snd cl))"
  by (induction cs arbitrary: cl) (simp_all add: mset_cluster_append)

lemma mset_concat_perm:
  assumes "mset xs = mset ys"
  shows "mset (concat (map f xs)) = mset (concat (map f ys))"
proof -
  have "mset (concat (map f zs)) = sum_mset (image_mset (\<lambda>z. mset (f z)) (mset zs))" for zs
    by (induction zs) simp_all
  then show ?thesis using assms by simp
qed

lemma mset_sorted_clusters: "mset (concat (map snd (sorted_clusters cs))) = mset cs"
proof -
  have "mset (concat (map snd (sorted_clusters cs))) = mset (concat (map snd (build_clusters cs)))"
    by (rule mset_concat_perm) (simp add: sorted_clusters_def)
  also have "\<dots> = mset cs"
    by (simp add: build_clusters_def mset_fold_cluster_append)
  finally show ?thesis .
qed

lemma map_snd_leveled_aux:
  "map snd (concat (map (\<lambda>(level, (_, items)). map (\<lambda>item. (level_name level, item)) items)
                 (enumerate n xs))) = concat (map snd xs)"
  by (induction xs arbitrary: n) (auto simp: comp_def)

lemma map_snd_leveled: "map snd (leveled cs) = concat (map snd (sorted_clusters cs))"
  unfolding leveled_def by (rule map_snd_leveled_aux)

lemma length_leveled: "length (leveled cs) = length cs"
proof -
  have "length (leveled cs) = length (map snd (leveled cs))" by simp
  also have "\<dots> = size (mset (concat (map snd (sorted_clusters cs))))"
    by (simp only: map_snd_leveled size_mset)
  also have "\<dots> = length cs" by (simp only: mset_sorted_clusters size_mset)
  finally show ?thesis .
qed

lemma length_assign: "length (assign_heading_levels cs) = length cs"
  using arg_cong[OF assign_mset[of cs], of size] by (simp add: length_leveled)

text \<open>
  Claim C10. For a non-empty list of candidates the list of headings is non-empty (it
  has one heading per candidate) and contains a heading of level H1: the cluster of
  rank 1 is never empty.
\<close>

theorem nonempty_outline_has_H1:
  "cs \<noteq> [] \<Longrightarrow>
     assign_heading_levels cs \<noteq> []
     \<and> length (assign_heading_levels cs) = length cs
     \<and> (\<exists>h \<in> set (assign_heading_levels cs). h_level h = ''H1'')"
proof (intro conjI)
  assume ne: "cs \<noteq> []"
  show "length (assign_heading_levels cs) = length cs" by (rule length_assign)
  then show "assign_heading_levels cs \<noteq> []" using ne by auto
  from first_cluster_H1[OF ne] obtain c where "(''H1'', c) \<in> set (leveled cs)" by blast
  then have "mk_heading (''H1'', c) \<in> set (assign_heading_levels cs)"
    unfolding assign_set by (rule imageI)
  then show "\<exists>h \<in> set (assign_heading_levels cs). h_level h = ''H1''"
    by (rule bexI[rotated]) (simp add: mk_heading_def)
qed

theorem nonempty_outline_has_H1_witness:
  "two_scores \<noteq> []
   \<and> map h_level (assign_heading_levels two_scores) = [''H1'', ''H3'', ''H3'', ''H2'']
   \<and> (\<exists>h \<in> set (assign_heading_levels two_scores). h_level h = ''H1'')"
proof -
  have ne: "two_scores \<noteq> []" by (simp add: two_scores_def)
  have lv: "map h_level (assign_heading_levels two_scores) = [''H1'', ''H3'', ''H3'', ''H2'']"
    by code_simp
  from nonempty_outline_has_H1[OF ne] ne lv show ?thesis by blast
qed


section \<open>The extraction\<close>

text \<open>
  A line without spans has the empty text and is skipped, so neither \<^verbatim>\<open>max\<close> nor
  \<^verbatim>\<open>spans[0]\<close> raises: the extraction returns the elements of the lines that are not
  blocked, in the order of the loops.
\<close>

lemma extract_line_eq:
  "extract_line fp n w lin elements =
     Inr (if is_blocked (line_text lin) then elements else elements @ [element_of fp (n, w, lin)])"
proof (cases "l_spans lin")
  case Nil
  then have "is_blocked (line_text lin)"
    by (simp add: is_blocked_def strip_def line_text_def)
  then show ?thesis by (simp add: extract_line_def Let_def line_text_def)
next
  case (Cons sp sps)
  have "fold max (map s_size sps) (s_size sp) = Max (set (map s_size (sp # sps)))"
    by (simp only: Max.set_eq_fold list.map)
  then show ?thesis using Cons
    by (simp add: extract_line_def Let_def py_max_def first_item_def element_of_def line_text_def)
qed

lemma extract_lines_eq:
  "extract_lines fp n w lins elements =
     Inr (elements @ map (element_of fp)
            (filter (\<lambda>(n, w, lin). \<not> is_blocked (line_text lin)) (map (\<lambda>lin. (n, w, lin)) lins)))"
  by (induction lins arbitrary: elements) (simp_all add: extract_line_eq)

lemma extract_blocks_eq:
  "extract_blocks fp n w blks elements =
     Inr (elements @ map (element_of fp)
            (filter (\<lambda>(n, w, lin). \<not> is_blocked (line_text lin))
               (concat (map (\<lambda>blk. case b_lines blk of None \<Rightarrow> []
                                    | Some lins \<Rightarrow> map (\<lambda>lin. (n, w, lin)) lins) blks))))"
  by (induction blks arbitrary: elements) (simp_all add: extract_lines_eq split: option.split)

lemma extract_pages_eq:
  "extract_pages fp pgs elements =
     Inr (elements @ map (element_of fp)
            (filter (\<lambda>(n, w, lin). \<not> is_blocked (line_text lin))
               (concat (map (\<lambda>(page_num, pg).
                    concat (map (\<lambda>blk. case b_lines blk of
                                          None \<Rightarrow> []
                                        | Some lins \<Rightarrow> map (\<lambda>lin. (page_num, p_width pg, lin)) lins)
                                (p_blocks pg))) pgs))))"
  by (induction pgs arbitrary: elements) (auto simp add: extract_blocks_eq)

lemma extract_text_with_style_eq:
  "extract_text_with_style fp doc = Inr (map (element_of fp) (surviving doc))"
  by (simp add: extract_text_with_style_def extract_pages_eq surviving_def doc_lines_def)

lemma structure_of_Nil: "structure_of fp [] = \<lparr>title = '''', outline = []\<rparr>"
  by (simp add: structure_of_def find_title_def process_headings_def assign_heading_levels_def)

lemma blocked_doc_lines:
  "list_all (\<lambda>(page_num, page_width, lin). is_blocked (line_text lin)) (doc_lines blocked_doc)"
  by code_simp

lemma blocked_doc_length: "length (doc_lines blocked_doc) = 3"
  by code_simp

text \<open>
  Claim C6. The empty line sequence gives the empty title and the empty outline:
  \<open>structure_of\<close>, the part of \<open>extract_document_structure\<close> behind the extraction,
  maps the empty list of elements to \<^verbatim>\<open>{"title": "", "outline": []}\<close>. So does the whole
  function for the document without pages and for every document in which no line
  survives the blocklist; and for every document the function returns a result, it
  raises no error.
\<close>

theorem empty_input_empty_structure:
  "structure_of fp [] = \<lparr>title = '''', outline = []\<rparr>
   \<and> extract_document_structure fp [] = Inr \<lparr>title = '''', outline = []\<rparr>
   \<and> (\<exists>r. extract_document_structure fp doc = Inr r)
   \<and> (list_all (\<lambda>(page_num, page_width, lin). is_blocked (line_text lin)) (doc_lines doc)
        \<longrightarrow> extract_text_with_style fp doc = Inr []
            \<and> extract_document_structure fp doc = Inr \<lparr>title = '''', outline = []\<rparr>)"
proof (intro conjI impI)
  show "structure_of fp [] = \<lparr>title = '''', outline = []\<rparr>"
    by (rule structure_of_Nil)
  show "extract_document_structure fp [] = Inr \<lparr>title = '''', outline = []\<rparr>"
    by (simp add: extract_document_structure_def extract_text_with_style_def structure_of_Nil)
  show "\<exists>r. extract_document_structure fp doc = Inr r"
    by (simp add: extract_document_structure_def extract_text_with_style_eq)
next
  assume "list_all (\<lambda>(page_num, page_width, lin). is_blocked (line_text lin)) (doc_lines doc)"
  then have "surviving doc = []"
    by (auto simp: surviving_def filter_empty_conv list_all_iff)
  then show "extract_text_with_style fp doc = Inr []"
    and "extract_document_structure fp doc = Inr \<lparr>title = '''', outline = []\<rparr>"
    by (simp_all add: extract_document_structure_def extract_text_with_style_eq structure_of_Nil)
qed

theorem empty_input_empty_structure_witness:
  "length (doc_lines blocked_doc) = 3
   \<and> list_all (\<lambda>(page_num, page_width, lin). is_blocked (line_text lin)) (doc_lines blocked_doc)
   \<and> extract_text_with_style exact_ops blocked_doc = Inr []
   \<and> extract_document_structure exact_ops blocked_doc = Inr \<lparr>title = '''', outline = []\<rparr>"
  using empty_input_empty_structure[of exact_ops blocked_doc] blocked_doc_lines blocked_doc_length
  by blast

section \<open>Blocked lines\<close>















end
